theory Spec2Isabelle
  imports Complex_Main "HOL-Library.AList"
begin

section \<open>Python strings\<close>

text \<open>
  A Python \<open>str\<close> is modelled as a \<open>string\<close>, one \<open>char\<close> per code point below 256.
  \<open>str.isspace\<close> holds below 256 for the code points 9 to 13, 28 to 32, 0x85 and 0xA0.
\<close>

definition isspace :: "char \<Rightarrow> bool" where
  "isspace c = (of_char c \<in> {9::nat, 10, 11, 12, 13, 28, 29, 30, 31, 32, 133, 160})"

definition lstrip :: "string \<Rightarrow> string" where
  "lstrip s = dropWhile isspace s"

definition rstrip :: "string \<Rightarrow> string" where
  "rstrip s = rev (dropWhile isspace (rev s))"

definition strip :: "string \<Rightarrow> string" where
  "strip s = lstrip (rstrip s)"

text \<open>\<open>s.find(c)\<close> for a one-character \<open>c\<close>: the first position of \<open>c\<close>, or \<open>-1\<close>.\<close>

fun find :: "char \<Rightarrow> string \<Rightarrow> int" where
  "find c [] = -1"
| "find c (x # xs) = (if x = c then 0 else (let r = find c xs in if r < 0 then -1 else r + 1))"

text \<open>The slices \<open>s[:j]\<close> and \<open>s[i:]\<close>; a negative bound counts from the end, and
  every bound is clamped to the string.\<close>

definition slice_to :: "string \<Rightarrow> int \<Rightarrow> string" where
  "slice_to s j = (if j < 0 then take (nat (int (length s) + j)) s else take (nat j) s)"

definition slice_from :: "string \<Rightarrow> int \<Rightarrow> string" where
  "slice_from s i = (if i < 0 then drop (nat (int (length s) + i)) s else drop (nat i) s)"

text \<open>\<open>s.replace(c, '')\<close> for a one-character \<open>c\<close>.\<close>

definition remove_char :: "char \<Rightarrow> string \<Rightarrow> string" where
  "remove_char c s = filter (\<lambda>x. x \<noteq> c) s"

section \<open>The configuration tree and its parser (model\_config\_utils.py)\<close>

text \<open>
  The parser builds Python values: a \<open>str\<close>, a \<open>list\<close>, or a \<open>dict\<close>. A \<open>dict\<close> keeps
  its keys in insertion order and assigning to a present key replaces the value in place,
  which is \<open>AList.update\<close> on an association list.
\<close>

datatype config_value =
    Scalar string
  | List "config_value list"
  | Message "(string \<times> config_value) list"

type_synonym py_dict = "(string \<times> config_value) list"

datatype config_error =
    StringIndexError
  | FileNotFoundError
  | ValueError
  | TypeError
  | TritonModelAnalyzerException string

definition dict_set :: "py_dict \<Rightarrow> string \<Rightarrow> config_value \<Rightarrow> py_dict" where
  "dict_set d k v = AList.update k v d"

text \<open>
  \<open>parse_dict\<close> and \<open>parse_list\<close> loop with \<open>while True\<close> and call each other. Every
  loop iteration and every call takes one unit of fuel; \<open>None\<close> is "has not returned
  within the fuel". The Python functions fill the \<open>output\<close> argument in place and return
  the rest of the text; the model returns both. Python's recursion limit is not modelled.
\<close>

fun parse_dict :: "nat \<Rightarrow> string \<Rightarrow> py_dict \<Rightarrow> (config_error + string \<times> py_dict) option"
  and parse_list :: "nat \<Rightarrow> string \<Rightarrow> config_value list \<Rightarrow>
      (config_error + string \<times> config_value list) option" where
  "parse_dict 0 s output = None"
| "parse_dict (Suc n) s output =
    (let config_str = lstrip s;
         next_newline = find CHR 0x0A config_str
     in if next_newline \<le> 0 then Some (Inr (config_str, output))
        else
          let next_item = slice_to config_str next_newline;
              key_delimiter = find CHR '':'' next_item;
              list_delimiter = find CHR ''['' next_item;
              dict_delimiter = find CHR ''{'' next_item
          in if key_delimiter > -1 then
               let next_val = remove_char CHR 0x22 (lstrip (slice_from next_item (key_delimiter + 1)))
               in parse_dict n (slice_from config_str (next_newline + 1))
                    (dict_set output (slice_to next_item key_delimiter) (Scalar next_val))
             else if list_delimiter > -1 then
               (case parse_list n (slice_from config_str (list_delimiter + 1)) [] of
                  None \<Rightarrow> None
                | Some (Inl e) \<Rightarrow> Some (Inl e)
                | Some (Inr (rest, next_list)) \<Rightarrow>
                    parse_dict n (lstrip rest)
                      (dict_set output (rstrip (slice_to next_item list_delimiter)) (List next_list)))
             else if dict_delimiter > -1 then
               (case parse_dict n (slice_from config_str (dict_delimiter + 1)) [] of
                  None \<Rightarrow> None
                | Some (Inl e) \<Rightarrow> Some (Inl e)
                | Some (Inr (rest, next_dict)) \<Rightarrow>
                    parse_dict n (lstrip rest)
                      (dict_set output (rstrip (slice_to next_item dict_delimiter)) (Message next_dict)))
             else Some (Inr (config_str, output)))"
| "parse_list 0 s output = None"
| "parse_list (Suc n) s output =
    (let config_str = lstrip s
     in case config_str of
          [] \<Rightarrow> Some (Inl StringIndexError)
        | c # _ \<Rightarrow>
            if c = CHR '']'' then Some (Inr (lstrip (slice_from config_str 1), output))
            else if c = CHR ''{'' then
              (case parse_dict n (slice_from (lstrip config_str) 1) [] of
                 None \<Rightarrow> None
               | Some (Inl e) \<Rightarrow> Some (Inl e)
               | Some (Inr (rest, next_dict)) \<Rightarrow>
                   parse_list n (slice_from (lstrip rest) 1) (output @ [Message next_dict]))
            else
              let comma = find CHR '','' config_str;
                  end_list = find CHR '']'' config_str;
                  delimiter = (if comma < 0 \<or> comma > end_list then end_list else comma)
              in parse_list n (slice_from config_str (delimiter + 1))
                   (output @ [Scalar (strip (slice_to config_str delimiter))]))"

text \<open>
  The file system is a map from paths to file contents; \<open>open\<close> of a missing file raises
  \<open>FileNotFoundError\<close>. \<open>os.path.join\<close> with a relative second component.
\<close>

definition path_join :: "string \<Rightarrow> string \<Rightarrow> string" where
  "path_join a b = (if a = [] then b else if last a = CHR ''/'' then a @ b else a @ ''/'' @ b)"

definition parse_model_config :: "nat \<Rightarrow> (string \<rightharpoonup> string) \<Rightarrow> string \<Rightarrow>
    (config_error + py_dict) option" where
  "parse_model_config fuel fs model_path =
    (case fs (path_join model_path ''config.pbtxt'') of
       None \<Rightarrow> Some (Inl FileNotFoundError)
     | Some config_str \<Rightarrow>
         (case parse_dict fuel config_str [] of
            None \<Rightarrow> None
          | Some (Inl e) \<Rightarrow> Some (Inl e)
          | Some (Inr (rest, model_config)) \<Rightarrow> Some (Inr model_config)))"

section \<open>Python's \<open>int\<close> on a string\<close>

text \<open>
  \<open>int(s)\<close> in base 10: surrounding whitespace is dropped, one sign is allowed, then
  decimal digits follow, where single underscores may stand between two digits. Anything
  else raises \<open>ValueError\<close>; a \<open>list\<close> or a \<open>dict\<close> argument raises \<open>TypeError\<close>.
\<close>

definition is_digit :: "char \<Rightarrow> bool" where
  "is_digit c = (48 \<le> (of_char c :: nat) \<and> (of_char c :: nat) \<le> 57)"

definition digit_val :: "char \<Rightarrow> nat" where
  "digit_val c = of_char c - 48"

fun parse_digits :: "nat \<Rightarrow> string \<Rightarrow> nat option" where
  "parse_digits acc [] = Some acc"
| "parse_digits acc [c] = (if is_digit c then Some (10 * acc + digit_val c) else None)"
| "parse_digits acc (c # d # ds) =
     (if is_digit c then parse_digits (10 * acc + digit_val c) (d # ds)
      else if c = CHR ''_'' \<and> is_digit d then parse_digits (10 * acc + digit_val d) ds
      else None)"

definition int_of_str :: "string \<Rightarrow> config_error + int" where
  "int_of_str s =
    (let t = strip s;
         neg = (case t of c # _ \<Rightarrow> c = CHR ''-'' | [] \<Rightarrow> False);
         body = (case t of c # r \<Rightarrow> if c = CHR ''-'' \<or> c = CHR ''+'' then r else t | [] \<Rightarrow> [])
     in case body of
          [] \<Rightarrow> Inl ValueError
        | d # ds \<Rightarrow>
            if is_digit d then
              (case parse_digits (digit_val d) ds of
                 None \<Rightarrow> Inl ValueError
               | Some n \<Rightarrow> Inr (if neg then - int n else int n))
            else Inl ValueError)"

fun py_int :: "config_value \<Rightarrow> config_error + int" where
  "py_int (Scalar s) = int_of_str s"
| "py_int (List xs) = Inl TypeError"
| "py_int (Message d) = Inl TypeError"

text \<open>The number a string of decimal digits stands for.\<close>

definition decimal_value :: "string \<Rightarrow> nat" where
  "decimal_value s = foldl (\<lambda>acc c. 10 * acc + digit_val c) 0 s"

section \<open>ModelConfig (model\_config.py)\<close>

record model_config =
  model_path :: string
  config :: py_dict

definition dict_keys :: "py_dict \<Rightarrow> string set" where
  "dict_keys d = fst ` set d"

text \<open>The messages of the exceptions the accessors raise, as the f-strings build them.\<close>

definition name_missing :: "string \<Rightarrow> string" where
  "name_missing path = ''Model'' @ [CHR 0x27] @ ''s name not found in ModelConfig at '' @ path"

definition platform_missing :: "string \<Rightarrow> string" where
  "platform_missing path =
     ''Model'' @ [CHR 0x27] @ ''s platform not found in ModelConfig at '' @ path"

definition max_batch_size_missing :: "string \<Rightarrow> string" where
  "max_batch_size_missing path =
     ''Model'' @ [CHR 0x27] @ ''s max_batch_size not found in ModelConfig at '' @ path"

definition instance_group_missing :: "string \<Rightarrow> string" where
  "instance_group_missing path =
     ''ModelConfig  at '' @ path @ '' does not contain an instance_group''"

definition dynamic_batching_missing :: "string \<Rightarrow> string" where
  "dynamic_batching_missing path =
     ''ModelConfig at '' @ path @ '' does not request dynamic_batching''"

text \<open>\<open>d[k]\<close> behind the \<open>k not in d\<close> test of each accessor.\<close>

definition field :: "model_config \<Rightarrow> string \<Rightarrow> string \<Rightarrow> config_error + config_value" where
  "field c k msg =
     (if k \<notin> dict_keys (config c) then Inl (TritonModelAnalyzerException msg)
      else Inr (the (map_of (config c) k)))"

definition name :: "model_config \<Rightarrow> config_error + config_value" where
  "name c = field c ''name'' (name_missing (model_path c))"

definition platform :: "model_config \<Rightarrow> config_error + config_value" where
  "platform c = field c ''platform'' (platform_missing (model_path c))"

definition max_batch_size :: "model_config \<Rightarrow> config_error + int" where
  "max_batch_size c =
     (case field c ''max_batch_size'' (max_batch_size_missing (model_path c)) of
        Inl e \<Rightarrow> Inl e
      | Inr v \<Rightarrow> py_int v)"

definition instance_group :: "model_config \<Rightarrow> config_error + config_value" where
  "instance_group c = field c ''instance_group'' (instance_group_missing (model_path c))"

definition dynamic_batching :: "model_config \<Rightarrow> config_error + config_value" where
  "dynamic_batching c =
     field c ''dynamic_batching'' (dynamic_batching_missing (model_path c))"

definition set_instance_group :: "model_config \<Rightarrow> config_value \<Rightarrow> model_config" where
  "set_instance_group c v = c\<lparr>config := dict_set (config c) ''instance_group'' v\<rparr>"

definition set_dynamic_batching :: "model_config \<Rightarrow> config_value \<Rightarrow> model_config" where
  "set_dynamic_batching c v = c\<lparr>config := dict_set (config c) ''dynamic_batching'' v\<rparr>"

text \<open>The truth value of an optional constructor argument: \<open>None\<close> and empty values are false.\<close>

fun truthy :: "config_value option \<Rightarrow> bool" where
  "truthy None = False"
| "truthy (Some (Scalar s)) = (s \<noteq> [])"
| "truthy (Some (List xs)) = (xs \<noteq> [])"
| "truthy (Some (Message d)) = (d \<noteq> [])"

definition ModelConfig :: "nat \<Rightarrow> (string \<rightharpoonup> string) \<Rightarrow> string \<Rightarrow> config_value option \<Rightarrow>
    config_value option \<Rightarrow> (config_error + model_config) option" where
  "ModelConfig fuel fs path ig db =
    (case parse_model_config fuel fs path of
       None \<Rightarrow> None
     | Some (Inl e) \<Rightarrow> Some (Inl e)
     | Some (Inr cfg) \<Rightarrow>
         (let c0 = \<lparr>model_path = path, config = cfg\<rparr>;
              c1 = (if truthy ig then set_instance_group c0 (the ig) else c0);
              c2 = (if truthy db then set_dynamic_batching c1 (the db) else c1)
          in Some (Inr c2)))"

section \<open>ResultComparator (result\_comparator.py)\<close>

text \<open>
  Measured values are Python numbers; they are modelled as reals, with exact arithmetic
  in place of floating point. A metric kind is any type \<open>'k\<close>.
\<close>

datatype 'k result_error =
    IndexError
  | NotSubscriptable
  | AttributeError
  | CategoryUnknown 'k
  | InitError string
  | KeyError string

record 'k result_comparator =
  non_gpu_type_to_idx :: "'k \<rightharpoonup> nat"
  gpu_type_to_idx :: "'k \<rightharpoonup> nat"
  metric_priorities :: "'k list"
  comparison_threshold_factor :: real
  weights :: "real list option"

text \<open>The dict comprehension \<open>{types[i]: i for i in range(len(types))}\<close>: a kind listed
  twice keeps its last position.\<close>

definition type_to_idx :: "'k list \<Rightarrow> ('k \<rightharpoonup> nat)" where
  "type_to_idx types = fold (\<lambda>i m. m(types ! i \<mapsto> i)) [0..<length types] Map.empty"

definition ResultComparator :: "'k list \<Rightarrow> 'k list \<Rightarrow> 'k list \<Rightarrow> real \<Rightarrow> real list option \<Rightarrow>
    'k result_comparator" where
  "ResultComparator gpu_metric_types non_gpu_metric_types priorities
      comparison_threshold_percent ws =
    \<lparr>non_gpu_type_to_idx = type_to_idx non_gpu_metric_types,
     gpu_type_to_idx = type_to_idx gpu_metric_types,
     metric_priorities = priorities,
     comparison_threshold_factor = (comparison_threshold_percent * 1.0) / 100,
     weights = ws\<rparr>"

type_synonym gpu_id = string

text \<open>
  Modelled from the spec: \<open>RunConfig\<close> (its class is not part of the sources). It is only
  read through \<open>perf_analyzer_configs()\<close>, an ordered list of identity maps with the keys
  \<open>model-name\<close>, \<open>batch-size\<close> and \<open>concurrency-range\<close>; it is kept as that list.
\<close>

record perf_config =
  model_name :: string
  batch_size :: string
  concurrency_range :: string

type_synonym run_config = "perf_config list"

text \<open>
  A RunResult keeps two lists of snapshots: rows of numbers (no GPU id), and dicts from
  GPU id to a row of numbers. The comparator of a RunResult is a ResultComparator.
\<close>

record 'k run_result =
  run_config :: run_config
  comparator :: "'k result_comparator"
  non_gpu_specific_measurements :: "real list list"
  gpu_specific_measurements :: "(gpu_id \<times> real list) list list"

text \<open>
  \<open>_average_list\<close> is duck-typed: it is given a list of lists of numbers, or a list of
  \<open>dict.values()\<close> views. Both support \<open>len\<close>; only a list supports \<open>row[i]\<close>.
\<close>

datatype pyrow = PyList "real list" | DictValues "real list list"

fun py_len :: "pyrow \<Rightarrow> nat" where
  "py_len (PyList xs) = length xs"
| "py_len (DictValues vs) = length vs"

fun py_getitem :: "pyrow \<Rightarrow> nat \<Rightarrow> 'k result_error + real" where
  "py_getitem (PyList xs) i = (if i < length xs then Inr (xs ! i) else Inl IndexError)"
| "py_getitem (DictValues vs) i = Inl NotSubscriptable"

text \<open>A list comprehension whose element expression may raise: the first error wins.\<close>

fun comprehension :: "('a \<Rightarrow> 'e + 'b) \<Rightarrow> 'a list \<Rightarrow> 'e + 'b list" where
  "comprehension f [] = Inr []"
| "comprehension f (x # xs) =
     (case f x of
        Inl e \<Rightarrow> Inl e
      | Inr y \<Rightarrow> (case comprehension f xs of Inl e \<Rightarrow> Inl e | Inr ys \<Rightarrow> Inr (y # ys)))"

definition average_list :: "pyrow list \<Rightarrow> 'k result_error + real list" where
  "average_list row_list =
    (if row_list = [] then Inr []
     else
       let N = length row_list;
           d = py_len (row_list ! 0)
       in comprehension
            (\<lambda>i. case comprehension (\<lambda>j. py_getitem (row_list ! j) i) [0..<N] of
                   Inl e \<Rightarrow> Inl e
                 | Inr column \<Rightarrow> Inr ((sum_list column * 1.0) / real N))
            [0..<d])"

definition get_measurements :: "'k run_result \<Rightarrow> (gpu_id \<times> real list) list list \<times> real list list" where
  "get_measurements r = (gpu_specific_measurements r, non_gpu_specific_measurements r)"

definition average_measurements :: "'k run_result \<Rightarrow> 'k result_error + real list \<times> real list" where
  "average_measurements result =
    (let (gpu_measurements, non_gpu_measurements) = get_measurements result;
         gpu_rows = map (\<lambda>measurement. DictValues (map snd measurement)) gpu_measurements
     in case average_list gpu_rows of
          Inl e \<Rightarrow> Inl e
        | Inr avg_gpu \<Rightarrow>
            (case average_list (map PyList non_gpu_measurements) of
               Inl e \<Rightarrow> Inl e
             | Inr avg_non_gpu \<Rightarrow> Inr (avg_gpu, avg_non_gpu)))"

text \<open>\<open>xs[i]\<close> on a list of averages.\<close>

definition avg_at :: "real list \<Rightarrow> nat \<Rightarrow> 'k result_error + real" where
  "avg_at xs i = (if i < length xs then Inr (xs ! i) else Inl IndexError)"

text \<open>
  The loop over the priorities. Both branches test the same index, \<open>_gpu_type_to_idx\<close>,
  as the source does; the first one reads the averages of the rows without GPU id.
\<close>

primrec compare_priorities :: "'k result_comparator \<Rightarrow> real list \<Rightarrow> real list \<Rightarrow> real list \<Rightarrow>
    real list \<Rightarrow> 'k list \<Rightarrow> 'k result_error + int" where
  "compare_priorities c avg_gpu1 avg_non_gpu1 avg_gpu2 avg_non_gpu2 [] = Inr 0"
| "compare_priorities c avg_gpu1 avg_non_gpu1 avg_gpu2 avg_non_gpu2 (priority # rest) =
    (if gpu_type_to_idx c priority \<noteq> None then
       (let metric_idx = the (gpu_type_to_idx c priority)
        in case avg_at avg_non_gpu1 metric_idx of
             Inl e \<Rightarrow> Inl e
           | Inr v1 \<Rightarrow>
               (let threshold = comparison_threshold_factor c * v1
                in case avg_at avg_non_gpu2 metric_idx of
                     Inl e \<Rightarrow> Inl e
                   | Inr v2 \<Rightarrow>
                       (let value_diff = v1 - v2
                        in if value_diff > threshold then Inr 1
                           else if value_diff < - threshold then Inr (- 1)
                           else compare_priorities c avg_gpu1 avg_non_gpu1 avg_gpu2
                                  avg_non_gpu2 rest)))
     else if gpu_type_to_idx c priority \<noteq> None then
       (let metric_idx = the (gpu_type_to_idx c priority)
        in case avg_at avg_gpu1 metric_idx of
             Inl e \<Rightarrow> Inl e
           | Inr v1 \<Rightarrow>
               (let threshold = comparison_threshold_factor c * v1
                in case avg_at avg_gpu2 metric_idx of
                     Inl e \<Rightarrow> Inl e
                   | Inr v2 \<Rightarrow>
                       (let value_diff = v1 - v2
                        in if value_diff > threshold then Inr 1
                           else if value_diff < - threshold then Inr (- 1)
                           else compare_priorities c avg_gpu1 avg_non_gpu1 avg_gpu2
                                  avg_non_gpu2 rest)))
     else Inl (CategoryUnknown priority))"

definition compare :: "'k result_comparator \<Rightarrow> 'k run_result \<Rightarrow> 'k run_result \<Rightarrow>
    'k result_error + int" where
  "compare c result1 result2 =
    (case average_measurements result1 of
       Inl e \<Rightarrow> Inl e
     | Inr (avg_gpu_metrics1, avg_non_gpu_metrics1) \<Rightarrow>
         (case average_measurements result2 of
            Inl e \<Rightarrow> Inl e
          | Inr (avg_gpu_metrics2, avg_non_gpu_metrics2) \<Rightarrow>
              compare_priorities c avg_gpu_metrics1 avg_non_gpu_metrics1
                avg_gpu_metrics2 avg_non_gpu_metrics2 (metric_priorities c)))"

section \<open>RunResult (run\_result.py)\<close>

definition RunResult :: "run_config \<Rightarrow> 'k result_comparator \<Rightarrow> 'k run_result" where
  "RunResult rc cmp =
    \<lparr>run_config = rc, comparator = cmp,
     non_gpu_specific_measurements = [], gpu_specific_measurements = []\<rparr>"

text \<open>\<open>add_data(measurements, has_gpu_ids)\<close>: the flag is the constructor of the argument.\<close>

datatype measurements = WithGpuIds "(gpu_id \<times> real list) list" | WithoutGpuIds "real list"

fun add_data :: "'k run_result \<Rightarrow> measurements \<Rightarrow> 'k run_result" where
  "add_data r (WithGpuIds m) =
     r\<lparr>gpu_specific_measurements := gpu_specific_measurements r @ [m]\<rparr>"
| "add_data r (WithoutGpuIds m) =
     r\<lparr>non_gpu_specific_measurements := non_gpu_specific_measurements r @ [m]\<rparr>"

definition run_result_eq :: "'k run_result \<Rightarrow> 'k run_result \<Rightarrow> 'k result_error + bool" where
  "run_result_eq self other =
     (case compare (comparator self) self other of Inl e \<Rightarrow> Inl e | Inr r \<Rightarrow> Inr (r = 0))"

definition run_result_gt :: "'k run_result \<Rightarrow> 'k run_result \<Rightarrow> 'k result_error + bool" where
  "run_result_gt self other =
     (case compare (comparator self) self other of Inl e \<Rightarrow> Inl e | Inr r \<Rightarrow> Inr (r = 1))"

text \<open>
  \<open>@total_ordering\<close> derives \<open>__lt__\<close> from \<open>__gt__\<close> and \<open>__eq__\<close>:
  \<open>a < b\<close> is \<open>not (a > b) and a != b\<close>, where \<open>!=\<close> negates \<open>__eq__\<close>.
\<close>

definition run_result_lt :: "'k run_result \<Rightarrow> 'k run_result \<Rightarrow> 'k result_error + bool" where
  "run_result_lt self other =
     (case run_result_gt self other of
        Inl e \<Rightarrow> Inl e
      | Inr op_result \<Rightarrow>
          if op_result then Inr False
          else (case run_result_eq self other of Inl e \<Rightarrow> Inl e | Inr eq \<Rightarrow> Inr (\<not> eq)))"

section \<open>Python's heapq\<close>

text \<open>
  \<open>heapq\<close> of the standard library, as \<open>heapq.py\<close> defines it: a binary min-heap in a
  list, ordered by \<open><\<close> alone. The comparison \<open>lt\<close> may raise an error of the comparator.
\<close>

function siftdown_loop :: "('a \<Rightarrow> 'a \<Rightarrow> 'e + bool) \<Rightarrow> 'a list \<Rightarrow> nat \<Rightarrow> nat \<Rightarrow> 'a \<Rightarrow> 'e + 'a list" where
  "siftdown_loop lt heap startpos pos newitem =
    (if pos > startpos then
       (let parentpos = (pos - 1) div 2;
            parent = heap ! parentpos
        in case lt newitem parent of
             Inl e \<Rightarrow> Inl e
           | Inr b \<Rightarrow>
               if b then siftdown_loop lt (heap[pos := parent]) startpos parentpos newitem
               else Inr (heap[pos := newitem]))
     else Inr (heap[pos := newitem]))"
  by pat_completeness auto
termination
  by (relation "measure (\<lambda>(lt, heap, startpos, pos, newitem). pos)") auto

definition siftdown :: "('a \<Rightarrow> 'a \<Rightarrow> 'e + bool) \<Rightarrow> 'a list \<Rightarrow> nat \<Rightarrow> nat \<Rightarrow> 'e + 'a list" where
  "siftdown lt heap startpos pos = siftdown_loop lt heap startpos pos (heap ! pos)"

text \<open>The position of the smaller child of \<open>pos\<close>, given that \<open>childpos < endpos\<close>.\<close>

definition smaller_child :: "('a \<Rightarrow> 'a \<Rightarrow> 'e + bool) \<Rightarrow> 'a list \<Rightarrow> nat \<Rightarrow> nat \<Rightarrow> 'e + nat" where
  "smaller_child lt heap endpos childpos =
    (let rightpos = childpos + 1
     in if rightpos < endpos then
          (case lt (heap ! childpos) (heap ! rightpos) of
             Inl e \<Rightarrow> Inl e
           | Inr b \<Rightarrow> Inr (if \<not> b then rightpos else childpos))
        else Inr childpos)"

function siftup_loop :: "('a \<Rightarrow> 'a \<Rightarrow> 'e + bool) \<Rightarrow> 'a list \<Rightarrow> nat \<Rightarrow> nat \<Rightarrow> 'e + 'a list \<times> nat" where
  "siftup_loop lt heap endpos pos =
    (let childpos = 2 * pos + 1
     in if childpos < endpos then
          (case smaller_child lt heap endpos childpos of
             Inl e \<Rightarrow> Inl e
           | Inr childpos' \<Rightarrow> siftup_loop lt (heap[pos := heap ! childpos']) endpos childpos')
        else Inr (heap, pos))"
  by pat_completeness auto
termination
  by (relation "measure (\<lambda>(lt, heap, endpos, pos). endpos - pos)")
     (auto simp: smaller_child_def Let_def split: if_splits sum.splits)

definition siftup :: "('a \<Rightarrow> 'a \<Rightarrow> 'e + bool) \<Rightarrow> 'a list \<Rightarrow> nat \<Rightarrow> 'e + 'a list" where
  "siftup lt heap pos =
    (let endpos = length heap;
         startpos = pos;
         newitem = heap ! pos
     in case siftup_loop lt heap endpos pos of
          Inl e \<Rightarrow> Inl e
        | Inr (heap', pos') \<Rightarrow> siftdown lt (heap'[pos' := newitem]) startpos pos')"

definition heappush :: "('a \<Rightarrow> 'a \<Rightarrow> 'e + bool) \<Rightarrow> 'a list \<Rightarrow> 'a \<Rightarrow> 'e + 'a list" where
  "heappush lt heap item = siftdown lt (heap @ [item]) 0 (length (heap @ [item]) - 1)"

definition heappop :: "('a \<Rightarrow> 'a \<Rightarrow> 'k result_error + bool) \<Rightarrow> 'a list \<Rightarrow>
    'k result_error + 'a \<times> 'a list" where
  "heappop lt heap =
    (if heap = [] then Inl IndexError
     else
       let lastelt = last heap;
           heap1 = butlast heap
       in if heap1 \<noteq> [] then
            (let returnitem = heap1 ! 0
             in case siftup lt (heap1[0 := lastelt]) 0 of
                  Inl e \<Rightarrow> Inl e
                | Inr heap2 \<Rightarrow> Inr (returnitem, heap2))
          else Inr (lastelt, heap1))"

section \<open>ResultManager (result\_manager.py)\<close>

text \<open>
  Modelled from the spec: \<open>ResultTable\<close> (result\_table.py is not part of the sources).
  A table has a title, its column headers and its rows; \<open>insert_row_by_index(row)\<close>
  appends the row (tables are append-only). A cell is a string or a number.
\<close>

datatype cell = Str string | Num real

record result_table =
  title :: string
  headers :: "string list"
  rows :: "cell list list"

definition insert_row_by_index :: "result_table \<Rightarrow> cell list \<Rightarrow> result_table" where
  "insert_row_by_index t row = t\<lparr>rows := rows t @ [row]\<rparr>"

text \<open>
  The RunResults are objects: \<open>_current_run_result\<close> and the entries of the heap
  \<open>_results\<close> are references to them. \<open>objects\<close> is the store, a reference is an index
  into it. \<open>_current_run_result\<close> does not exist before the first \<open>init_result\<close>.
  An operation that raises returns the error alone: the state an exception leaves behind
  is not part of the model.
\<close>

record 'k result_manager =
  result_tables :: "(string \<times> result_table) list"
  result_comparator :: "'k result_comparator option"
  results :: "nat list"
  current_run_result :: "nat option"
  objects :: "'k run_result list"

definition non_gpu_specific_headers :: "string list" where
  "non_gpu_specific_headers = [''Model'', ''Batch'', ''Concurrency'']"

definition gpu_specific_headers :: "string list" where
  "gpu_specific_headers = [''Model'', ''GPU ID'', ''Batch'', ''Concurrency'']"

definition server_only_table_key :: string where
  "server_only_table_key = ''server_gpu_metrics''"

definition model_gpu_table_key :: string where
  "model_gpu_table_key = ''model_gpu_metrics''"

definition model_inference_table_key :: string where
  "model_inference_table_key = ''model_inference_metrics''"

definition ResultManager :: "'k result_manager" where
  "ResultManager =
    \<lparr>result_tables = [], result_comparator = None, results = [],
     current_run_result = None, objects = []\<rparr>"

definition set_result_comparator :: "'k result_manager \<Rightarrow> 'k result_comparator \<Rightarrow> 'k result_manager" where
  "set_result_comparator mgr cmp = mgr\<lparr>result_comparator := Some cmp\<rparr>"

text \<open>\<open>header\<close> is the \<open>header\<close> method of the metric kinds, which the sources do not hold.\<close>

definition add_result_table :: "('k \<Rightarrow> string \<Rightarrow> string) \<Rightarrow> 'k result_manager \<Rightarrow> string \<Rightarrow> string \<Rightarrow>
    string list \<Rightarrow> 'k list \<Rightarrow> string \<Rightarrow> 'k result_manager" where
  "add_result_table header mgr table_key ttl hdrs metric_types aggregation_tag =
    (let table_headers = hdrs @ map (\<lambda>metric. header metric (aggregation_tag @ '' '')) metric_types
     in mgr\<lparr>result_tables :=
          AList.update table_key \<lparr>title = ttl, headers = table_headers, rows = []\<rparr>
            (result_tables mgr)\<rparr>)"

definition create_tables :: "('k \<Rightarrow> string \<Rightarrow> string) \<Rightarrow> 'k result_manager \<Rightarrow> 'k list \<Rightarrow> 'k list \<Rightarrow>
    string \<Rightarrow> 'k result_manager" where
  "create_tables header mgr gpu_specific_metrics non_gpu_specific_metrics aggregation_tag =
    (let m1 = add_result_table header mgr server_only_table_key ''Server Only''
                gpu_specific_headers gpu_specific_metrics aggregation_tag;
         m2 = add_result_table header m1 model_gpu_table_key ''Models (GPU Metrics)''
                gpu_specific_headers gpu_specific_metrics aggregation_tag
     in add_result_table header m2 model_inference_table_key ''Models (Inference)''
          non_gpu_specific_headers non_gpu_specific_metrics aggregation_tag)"

definition init_result :: "'k result_manager \<Rightarrow> run_config \<Rightarrow> 'k result_error + 'k result_manager" where
  "init_result mgr rc =
    (if length (result_tables mgr) = 0 then
       Inl (InitError ''Cannot initialize results without tables'')
     else case result_comparator mgr of
       None \<Rightarrow> Inl (InitError ''Cannot initialize results without setting result comparator'')
     | Some cmp \<Rightarrow>
         Inr (mgr\<lparr>current_run_result := Some (length (objects mgr)),
                  objects := objects mgr @ [RunResult rc cmp]\<rparr>))"

definition add_model_data :: "'k result_manager \<Rightarrow> measurements \<Rightarrow> 'k result_error + 'k result_manager" where
  "add_model_data mgr m =
    (case current_run_result mgr of
       None \<Rightarrow> Inl AttributeError
     | Some ref \<Rightarrow> Inr (mgr\<lparr>objects := (objects mgr)[ref := add_data (objects mgr ! ref) m]\<rparr>))"

text \<open>\<open><\<close> on two references compares the objects they point to.\<close>

definition ref_lt :: "'k run_result list \<Rightarrow> nat \<Rightarrow> nat \<Rightarrow> 'k result_error + bool" where
  "ref_lt objs a b = run_result_lt (objs ! a) (objs ! b)"

definition complete_result :: "'k result_manager \<Rightarrow> 'k result_error + 'k result_manager" where
  "complete_result mgr =
    (case current_run_result mgr of
       None \<Rightarrow> Inl AttributeError
     | Some ref \<Rightarrow>
         (case heappush (ref_lt (objects mgr)) (results mgr) ref of
            Inl e \<Rightarrow> Inl e
          | Inr heap \<Rightarrow> Inr (mgr\<lparr>results := heap\<rparr>)))"

text \<open>The table under a key that \<open>create_tables\<close> has set; a missing key is a \<open>KeyError\<close>.\<close>

definition table_insert :: "'k result_manager \<Rightarrow> string \<Rightarrow> cell list \<Rightarrow> 'k result_error + 'k result_manager" where
  "table_insert mgr key row =
    (case map_of (result_tables mgr) key of
       None \<Rightarrow> Inl (KeyError key)
     | Some t \<Rightarrow>
         Inr (mgr\<lparr>result_tables := AList.update key (insert_row_by_index t row) (result_tables mgr)\<rparr>))"

fun insert_gpu_rows :: "'k result_manager \<Rightarrow> perf_config \<Rightarrow> (gpu_id \<times> real list) list \<Rightarrow>
    'k result_error + 'k result_manager" where
  "insert_gpu_rows mgr pc [] = Inr mgr"
| "insert_gpu_rows mgr pc ((gpu_id, metrics) # rest) =
    (case table_insert mgr model_gpu_table_key
            ([Str (model_name pc), Str gpu_id, Str (batch_size pc), Str (concurrency_range pc)]
             @ map Num metrics) of
       Inl e \<Rightarrow> Inl e
     | Inr mgr' \<Rightarrow> insert_gpu_rows mgr' pc rest)"

fun compile_rows :: "'k result_manager \<Rightarrow> run_config \<Rightarrow> real list list \<Rightarrow>
    (gpu_id \<times> real list) list list \<Rightarrow> nat list \<Rightarrow> 'k result_error + 'k result_manager" where
  "compile_rows mgr perf_configs non_gpu_rows gpu_data [] = Inr mgr"
| "compile_rows mgr perf_configs non_gpu_rows gpu_data (i # is) =
    (let pc = perf_configs ! i
     in if \<not> i < length non_gpu_rows then Inl IndexError
        else case table_insert mgr model_inference_table_key
                    ([Str (model_name pc), Str (batch_size pc), Str (concurrency_range pc)]
                     @ map Num (non_gpu_rows ! i)) of
               Inl e \<Rightarrow> Inl e
             | Inr mgr1 \<Rightarrow>
                 if \<not> i < length gpu_data then Inl IndexError
                 else case insert_gpu_rows mgr1 pc (gpu_data ! i) of
                        Inl e \<Rightarrow> Inl e
                      | Inr mgr2 \<Rightarrow> compile_rows mgr2 perf_configs non_gpu_rows gpu_data is)"

definition compile_result :: "'k result_manager \<Rightarrow> 'k run_result \<Rightarrow> 'k result_error + 'k result_manager" where
  "compile_result mgr result =
    (let (gpu_data, non_gpu_rows) = get_measurements result;
         perf_configs = run_config result
     in compile_rows mgr perf_configs non_gpu_rows gpu_data [0..<length perf_configs])"

text \<open>
  \<open>compile_results\<close> pops until the heap is empty. It ends because the heap loops keep
  the length of the list, so that \<open>heappop\<close> shortens it by one, and \<open>_compile_result\<close>
  does not touch the heap.
\<close>

declare siftdown_loop.simps [simp del]

declare siftup_loop.simps [simp del]

lemma length_siftdown_loop:
  "siftdown_loop lt heap startpos pos newitem = Inr heap' \<Longrightarrow> length heap' = length heap"
proof (induction lt heap startpos pos newitem rule: siftdown_loop.induct)
  case (1 lt heap startpos pos newitem)
  from "1.prems" show ?case
    apply (subst (asm) siftdown_loop.simps)
    apply (auto simp: Let_def split: if_splits sum.splits dest!: "1.IH" [OF _ refl refl])
    done
qed

lemma length_siftup_loop:
  "siftup_loop lt heap endpos pos = Inr (heap', pos') \<Longrightarrow> length heap' = length heap"
proof (induction lt heap endpos pos rule: siftup_loop.induct)
  case (1 lt heap endpos pos)
  show ?case
  proof (cases "2 * pos + 1 < endpos")
    case False
    with "1.prems" show ?thesis
      by (subst (asm) siftup_loop.simps) (simp add: Let_def)
  next
    case True
    with "1.prems" obtain c where
      c: "smaller_child lt heap endpos (2 * pos + 1) = Inr c"
      and r: "siftup_loop lt (heap[pos := heap ! c]) endpos c = Inr (heap', pos')"
      by (subst (asm) siftup_loop.simps) (auto simp: Let_def split: sum.splits)
    from "1.IH" [OF refl True c r] show ?thesis by simp
  qed
qed

lemma length_siftup:
  "siftup lt heap pos = Inr heap' \<Longrightarrow> length heap' = length heap"
  unfolding siftup_def siftdown_def
  by (auto simp: Let_def split: sum.splits prod.splits
      dest!: length_siftup_loop length_siftdown_loop)

lemma length_heappop:
  "heappop lt heap = Inr (item, heap') \<Longrightarrow> length heap' < length heap"
  unfolding heappop_def
  by (auto simp: Let_def split: if_splits sum.splits dest!: length_siftup)

lemma results_table_insert: "table_insert mgr key row = Inr mgr' \<Longrightarrow> results mgr' = results mgr"
  by (auto simp: table_insert_def split: option.splits)

lemma results_insert_gpu_rows:
  "insert_gpu_rows mgr pc d = Inr mgr' \<Longrightarrow> results mgr' = results mgr"
proof (induction d arbitrary: mgr)
  case Nil
  then show ?case by simp
next
  case (Cons a d)
  obtain g m where a: "a = (g, m)" by (cases a)
  from Cons.prems obtain mgr1 where
    t: "table_insert mgr model_gpu_table_key
          ([Str (model_name pc), Str g, Str (batch_size pc), Str (concurrency_range pc)] @ map Num m) = Inr mgr1"
    and r: "insert_gpu_rows mgr1 pc d = Inr mgr'"
    unfolding a by (auto split: sum.splits)
  from Cons.IH [OF r] results_table_insert [OF t] show ?case by simp
qed

lemma results_compile_rows:
  "compile_rows mgr pcs rs d is = Inr mgr' \<Longrightarrow> results mgr' = results mgr"
proof (induction "is" arbitrary: mgr)
  case Nil
  then show ?case by simp
next
  case (Cons i "is")
  from Cons.prems obtain mgr1 mgr2 where
    t: "table_insert mgr model_inference_table_key
          ([Str (model_name (pcs ! i)), Str (batch_size (pcs ! i)), Str (concurrency_range (pcs ! i))]
           @ map Num (rs ! i)) = Inr mgr1"
    and g: "insert_gpu_rows mgr1 (pcs ! i) (d ! i) = Inr mgr2"
    and r: "compile_rows mgr2 pcs rs d is = Inr mgr'"
    by (auto simp: Let_def split: sum.splits if_splits)
  from Cons.IH [OF r] results_insert_gpu_rows [OF g] results_table_insert [OF t]
  show ?case by simp
qed

lemma results_compile_result:
  "compile_result mgr r = Inr mgr' \<Longrightarrow> results mgr' = results mgr"
  unfolding compile_result_def get_measurements_def
  by (simp add: Let_def results_compile_rows)

function compile_results :: "'k result_manager \<Rightarrow> 'k result_error + 'k result_manager" where
  "compile_results mgr =
    (if results mgr \<noteq> [] then
       (case heappop (ref_lt (objects mgr)) (results mgr) of
          Inl e \<Rightarrow> Inl e
        | Inr (next_best_result, heap) \<Rightarrow>
            (case compile_result (mgr\<lparr>results := heap\<rparr>) (objects mgr ! next_best_result) of
               Inl e \<Rightarrow> Inl e
             | Inr mgr' \<Rightarrow> compile_results mgr'))
     else Inr mgr)"
  by pat_completeness auto
termination
proof (relation "measure (\<lambda>mgr. length (results mgr))")
  show "wf (measure (\<lambda>mgr. length (results mgr)))" by simp
next
  fix mgr :: "'k result_manager" and x2 x y mgr'
  assume "heappop (ref_lt (objects mgr)) (results mgr) = Inr x2" "(x, y) = x2"
    "compile_result (mgr\<lparr>results := y\<rparr>) (objects mgr ! x) = Inr mgr'"
  then show "(mgr', mgr) \<in> measure (\<lambda>mgr. length (results mgr))"
    using length_heappop [of "ref_lt (objects mgr)" "results mgr" x y]
      results_compile_result [of "mgr\<lparr>results := y\<rparr>" "objects mgr ! x" mgr']
    by simp
qed

declare compile_results.simps [simp del]

section \<open>The scenario text\<close>

definition scenario_text :: string where
  \<open>scenario_text =
     ''name: "m1"\<newline>platform: "tensorrt"\<newline>max_batch_size: 8\<newline>instance_group [\<newline>{\<newline>count: 2\<newline>}\<newline>]\<newline>''\<close>

section \<open>Example configurations\<close>

definition full_config :: model_config where
  "full_config = \<lparr>model_path = ''models/m1'',
     config = [(''name'', Scalar ''m1''), (''platform'', Scalar ''tensorrt''),
               (''max_batch_size'', Scalar ''8''),
               (''instance_group'', List [Message [(''count'', Scalar ''2'')]]),
               (''dynamic_batching'', Message [])]\<rparr>"

definition bare_config :: model_config where
  "bare_config = \<lparr>model_path = ''models/m1'', config = []\<rparr>"

text \<open>Results, comparators and a manager for the examples below.\<close>

definition one_config :: run_config where
  "one_config = [\<lparr>model_name = ''m1'', batch_size = ''1'', concurrency_range = ''1''\<rparr>]"

definition host_result :: "string result_comparator \<Rightarrow> real \<Rightarrow> string run_result" where
  "host_result cmp v = add_data (RunResult one_config cmp) (WithoutGpuIds [v])"

definition gpu_result :: "string result_comparator \<Rightarrow> real \<Rightarrow> real \<Rightarrow> string run_result" where
  "gpu_result cmp g v =
     add_data (add_data (RunResult one_config cmp) (WithGpuIds [(''0'', [g])])) (WithoutGpuIds [v])"

definition gpu_comparator :: "string result_comparator" where
  "gpu_comparator = ResultComparator [''gpu_utilization''] [''throughput''] [''gpu_utilization''] 1 None"

definition host_comparator :: "string result_comparator" where
  "host_comparator = ResultComparator [] [''throughput''] [''throughput''] 1 None"

definition both_comparator :: "string result_comparator" where
  "both_comparator = ResultComparator [''throughput''] [''throughput''] [''throughput''] 1 None"

text \<open>
  The caller of a sweep: for each run configuration \<open>init_result\<close>, \<open>add_model_data\<close> for
  each snapshot, \<open>complete_result\<close>; \<open>compile_results\<close> at the end.
\<close>

fun submit :: "'k result_manager \<Rightarrow> run_config \<times> measurements list \<Rightarrow> 'k result_error + 'k result_manager" where
  "submit mgr (rc, ms) =
    (case init_result mgr rc of
       Inl e \<Rightarrow> Inl e
     | Inr m0 \<Rightarrow>
         (case fold (\<lambda>m acc. case acc of Inl e \<Rightarrow> Inl e | Inr mg \<Rightarrow> add_model_data mg m) ms (Inr m0) of
            Inl e \<Rightarrow> Inl e
          | Inr m1 \<Rightarrow> complete_result m1))"

fun sweep :: "'k result_manager \<Rightarrow> (run_config \<times> measurements list) list \<Rightarrow> 'k result_error + 'k result_manager" where
  "sweep mgr [] = compile_results mgr"
| "sweep mgr (x # xs) = (case submit mgr x of Inl e \<Rightarrow> Inl e | Inr m \<Rightarrow> sweep m xs)"

definition ready_manager :: "string result_comparator \<Rightarrow> string result_manager" where
  "ready_manager cmp =
     set_result_comparator
       (create_tables (\<lambda>k tag. tag @ k) ResultManager [''gpu_utilization''] [''throughput''] ''Max'') cmp"

definition inference_rows :: "'k result_error + 'k result_manager \<Rightarrow> ('k result_error + cell list list)" where
  "inference_rows r = (case r of Inl e \<Rightarrow> Inl e | Inr m \<Rightarrow>
     (case map_of (result_tables m) model_inference_table_key of None \<Rightarrow> Inl (KeyError model_inference_table_key) | Some t \<Rightarrow> Inr (rows t)))"

section \<open>Properties of the parser\<close>

lemma parse_fuel_Suc:
  "(\<forall>s out r. parse_dict n s out = Some r \<longrightarrow> parse_dict (Suc n) s out = Some r) \<and>
   (\<forall>s lo r'. parse_list n s lo = Some r' \<longrightarrow> parse_list (Suc n) s lo = Some r')"
proof (induction n)
  case 0
  show ?case by simp
next
  case (Suc n)
  have d: "\<And>s out r. parse_dict n s out = Some r \<Longrightarrow> parse_dict (Suc n) s out = Some r"
    using Suc by blast
  have l: "\<And>s lo r. parse_list n s lo = Some r \<Longrightarrow> parse_list (Suc n) s lo = Some r"
    using Suc by blast
  have D: "parse_dict (Suc (Suc n)) s out = Some r" if h: "parse_dict (Suc n) s out = Some r" for s out r
    using h
    apply (subst parse_dict.simps(2))
    apply (subst (asm) parse_dict.simps(2))
    apply (simp only: Let_def split: if_splits option.splits sum.splits prod.splits)
    apply (auto dest!: d l)
    done
  have L: "parse_list (Suc (Suc n)) s lo = Some r" if h: "parse_list (Suc n) s lo = Some r" for s lo r
  proof (cases "lstrip s")
    case Nil
    with h show ?thesis by simp
  next
    case (Cons c cs)
    show ?thesis
    proof (cases "c = CHR '']''")
      case True
      with h Cons show ?thesis by simp
    next
      case nb: False
      show ?thesis
      proof (cases "c = CHR ''{''")
        case True
        from h Cons nb True show ?thesis
          apply (subst parse_list.simps(2))
          apply (subst (asm) parse_list.simps(2))
          apply (simp only: Let_def list.case if_False if_True split: option.splits sum.splits prod.splits)
          apply (auto dest!: d l)
          done
      next
        case False
        from h Cons nb False show ?thesis
          apply (subst parse_list.simps(2))
          apply (subst (asm) parse_list.simps(2))
          apply (simp only: Let_def list.case if_False if_True)
          apply (erule l)
          done
      qed
    qed
  qed
  show ?case using D L by blast
qed

lemma parse_dict_fuel_mono:
  "parse_dict n s out = Some r \<Longrightarrow> parse_dict (n + k) s out = Some r"
  by (induction k) (use parse_fuel_Suc in auto)

lemma parse_list_fuel_mono:
  "parse_list n s lo = Some r \<Longrightarrow> parse_list (n + k) s lo = Some r"
  by (induction k) (use parse_fuel_Suc in auto)

lemma parse_model_config_fuel_mono:
  "parse_model_config n fs p = Some r \<Longrightarrow> parse_model_config (n + k) fs p = Some r"
  unfolding parse_model_config_def
  by (auto split: option.splits sum.splits dest: parse_dict_fuel_mono [where k = k])

lemma find_absent: "c \<notin> set s \<Longrightarrow> find c s = -1"
  by (induction s) (auto simp: Let_def)

lemma find_nonneg_iff: "c \<in> set s \<Longrightarrow> 0 \<le> find c s"
  by (induction s) (auto simp: Let_def)

lemma set_lstrip: "set (lstrip s) \<subseteq> set s"
  unfolding lstrip_def by (rule set_dropWhileD [THEN subsetI])

lemma lstrip_idem: "lstrip (lstrip s) = lstrip s"
  unfolding lstrip_def by (induction s) auto

lemma parse_dict_no_newline:
  assumes "CHR 0x0A \<notin> set s"
  shows "parse_dict (Suc n) s out = Some (Inr (lstrip s, out))"
proof -
  have "CHR 0x0A \<notin> set (lstrip s)" using assms set_lstrip by blast
  then have "find CHR 0x0A (lstrip s) = -1" by (rule find_absent)
  then show ?thesis by (simp add: Let_def)
qed

lemma parse_list_end_of_input:
  "lstrip s = [] \<Longrightarrow> parse_list (Suc n) s lo = Some (Inl StringIndexError)"
  by simp

lemma parse_errors:
  "(\<forall>s out e. parse_dict n s out = Some (Inl e) \<longrightarrow> e = StringIndexError) \<and>
   (\<forall>s lo e. parse_list n s lo = Some (Inl e) \<longrightarrow> e = StringIndexError)"
proof (induction n)
  case 0
  show ?case by simp
next
  case (Suc n)
  have d: "\<And>s out e. parse_dict n s out = Some (Inl e) \<Longrightarrow> e = StringIndexError"
    using Suc by blast
  have l: "\<And>s lo e. parse_list n s lo = Some (Inl e) \<Longrightarrow> e = StringIndexError"
    using Suc by blast
  have D: "e = StringIndexError" if h: "parse_dict (Suc n) s out = Some (Inl e)" for s out e
    using h
    apply (subst (asm) parse_dict.simps(2))
    apply (simp only: Let_def split: if_splits option.splits sum.splits prod.splits)
    apply (auto dest!: d l)
    done
  have L: "e = StringIndexError" if h: "parse_list (Suc n) s lo = Some (Inl e)" for s lo e
  proof (cases "lstrip s")
    case Nil
    with h show ?thesis by simp
  next
    case (Cons c cs)
    from h Cons show ?thesis
      apply (subst (asm) parse_list.simps(2))
      apply (simp only: Let_def list.case split: if_splits option.splits sum.splits prod.splits)
      apply (auto dest!: d l)
      done
  qed
  show ?case using D L by blast
qed

text \<open>
  A list context whose next element starts with neither bracket, with no closing bracket
  left in the text, takes the delimiter \<open>-1\<close>: the text is not shortened and the loop
  never ends.
\<close>

lemma slice_from_0: "slice_from s 0 = s" by (simp add: slice_from_def)

lemma parse_list_diverges:
  assumes "lstrip s = c # cs" "c \<noteq> CHR '']''" "c \<noteq> CHR ''{''" "CHR '']'' \<notin> set s"
  shows "parse_list n s lo = None"
  using assms
proof (induction n arbitrary: s lo)
  case 0
  show ?case by simp
next
  case (Suc n)
  have e: "find CHR '']'' (lstrip s) = -1"
    using Suc.prems(4) set_lstrip by (intro find_absent) blast
  have nn: "CHR '']'' \<notin> set (lstrip s)" using Suc.prems(4) set_lstrip by blast
  have c: "find CHR '','' (lstrip s) < 0 \<or> find CHR '','' (lstrip s) > -1"
    by linarith
  have "parse_list (Suc n) s lo = parse_list n (lstrip s) (lo @ [Scalar (strip (slice_to (lstrip s) (-1)))])"
    using Suc.prems(1-3) e c by (auto simp add: Let_def slice_from_0)
  also have "\<dots> = None"
  proof (rule Suc.IH)
    show "lstrip (lstrip s) = c # cs" by (metis lstrip_idem Suc.prems(1))
    show "c \<noteq> CHR '']''" "c \<noteq> CHR ''{''" by (rule Suc.prems)+
    show "CHR '']'' \<notin> set (lstrip s)" by (rule nn)
  qed
  finally show ?case .
qed

text \<open>
  C6. The scenario text parses, given enough fuel, to a Message with the Scalars
  \<open>name = m1\<close>, \<open>platform = tensorrt\<close>, \<open>max_batch_size = 8\<close> (a string), and
  \<open>instance_group\<close> a List of exactly one Message \<open>{count: 2}\<close>.
\<close>

theorem scenario_parses:
  "parse_model_config (7 + n) [''models/m1/config.pbtxt'' \<mapsto> scenario_text] ''models/m1'' =
     Some (Inr [(''name'', Scalar ''m1''), (''platform'', Scalar ''tensorrt''),
                (''max_batch_size'', Scalar ''8''),
                (''instance_group'', List [Message [(''count'', Scalar ''2'')]])])"
proof -
  have "parse_model_config 7 [''models/m1/config.pbtxt'' \<mapsto> scenario_text] ''models/m1'' =
     Some (Inr [(''name'', Scalar ''m1''), (''platform'', Scalar ''tensorrt''),
                (''max_batch_size'', Scalar ''8''),
                (''instance_group'', List [Message [(''count'', Scalar ''2'')]])])"
    by code_simp
  then show ?thesis by (rule parse_model_config_fuel_mono)
qed

text \<open>
  C7. Counterexample: a list that is still open at the end of the text ends the parse with
  the string index error of \<open>config_str[0]\<close>; the parser has no error of its own.
\<close>

theorem unclosed_list_counterexample:
  "parse_model_config 2 [''m/config.pbtxt'' \<mapsto> ''a [\<newline>''] ''m'' = Some (Inl StringIndexError)"
  by code_simp

text \<open>
  C7. As amended: a missing config file is a \<open>FileNotFoundError\<close>; the parser itself raises
  nothing but the string index error, which is what a list context raises when only
  whitespace is left before its closing bracket; a dict context that meets the end of the
  text (no further line break) returns what it has parsed so far, with no error.
\<close>

theorem parse_failures:
  "(fs (path_join p ''config.pbtxt'') = None \<longrightarrow>
      parse_model_config n fs p = Some (Inl FileNotFoundError)) \<and>
   (parse_model_config n fs p = Some (Inl e) \<longrightarrow> e = FileNotFoundError \<or> e = StringIndexError) \<and>
   (lstrip s = [] \<longrightarrow> parse_list (Suc n) s lo = Some (Inl StringIndexError)) \<and>
   (CHR 0x0A \<notin> set s \<longrightarrow> parse_dict (Suc n) s out = Some (Inr (lstrip s, out)))"
proof (intro conjI impI)
  assume "fs (path_join p ''config.pbtxt'') = None"
  then show "parse_model_config n fs p = Some (Inl FileNotFoundError)"
    by (simp add: parse_model_config_def)
next
  assume "parse_model_config n fs p = Some (Inl e)"
  then show "e = FileNotFoundError \<or> e = StringIndexError"
    using parse_errors [of n]
    by (auto simp: parse_model_config_def split: option.splits sum.splits)
next
  assume "lstrip s = []"
  then show "parse_list (Suc n) s lo = Some (Inl StringIndexError)"
    by (rule parse_list_end_of_input)
next
  assume "CHR 0x0A \<notin> set s"
  then show "parse_dict (Suc n) s out = Some (Inr (lstrip s, out))"
    by (rule parse_dict_no_newline)
qed

text \<open>Witness for C7 (amended).\<close>

theorem parse_failures_witness:
  "Map.empty (path_join ''m'' ''config.pbtxt'') = (None :: string option) \<and>
   parse_model_config 1 Map.empty ''m'' = Some (Inl FileNotFoundError) \<and>
   lstrip '' '' = [] \<and>
   parse_list (Suc 1) '' '' [] = Some (Inl StringIndexError) \<and>
   CHR 0x0A \<notin> set '' '' \<and>
   parse_dict (Suc 1) '' '' [] = Some (Inr (lstrip '' '', []))"
proof -
  have a: "Map.empty (path_join ''m'' ''config.pbtxt'') = (None :: string option)" by simp
  have b: "lstrip '' '' = []" by (simp add: lstrip_def isspace_def)
  have c: "CHR 0x0A \<notin> set '' ''" by simp
  show ?thesis
    using parse_failures [of Map.empty "''m''" 1 FileNotFoundError "'' ''" "[]" "[]"] a b c
    by blast
qed

text \<open>
  C10. On a text with no line break the dict context returns at once, for every positive
  fuel: no entry is added to the output, no error is raised, and the text (less its
  leading whitespace) is handed back unparsed; a config file with no line break parses
  to the empty Message.
\<close>

theorem dict_context_without_newline:
  "CHR 0x0A \<notin> set s \<longrightarrow>
     parse_dict (Suc n) s output = Some (Inr (lstrip s, output)) \<and>
     (fs (path_join p ''config.pbtxt'') = Some s \<longrightarrow>
        parse_model_config (Suc n) fs p = Some (Inr []))"
  by (simp add: parse_dict_no_newline parse_model_config_def del: parse_dict.simps)

text \<open>Witness for C10: a last line \<open>b: 2\<close> with no line break after it.\<close>

theorem dict_context_without_newline_witness:
  "CHR 0x0A \<notin> set ''b: 2'' \<and>
   parse_dict (Suc 0) ''b: 2'' [(''a'', Scalar ''1'')] = Some (Inr (''b: 2'', [(''a'', Scalar ''1'')])) \<and>
   [''m/config.pbtxt'' \<mapsto> ''b: 2''] (path_join ''m'' ''config.pbtxt'') = Some ''b: 2'' \<and>
   parse_model_config (Suc 0) [''m/config.pbtxt'' \<mapsto> ''b: 2''] ''m'' = Some (Inr [])"
proof -
  have a: "CHR 0x0A \<notin> set ''b: 2''" by simp
  have b: "[''m/config.pbtxt'' \<mapsto> ''b: 2''] (path_join ''m'' ''config.pbtxt'') = Some ''b: 2''"
    by (simp add: path_join_def)
  have c: "lstrip ''b: 2'' = ''b: 2''" by (simp add: lstrip_def isspace_def)
  show ?thesis
    using dict_context_without_newline [of "''b: 2''" 0 "[(''a'', Scalar ''1'')]"
        "[''m/config.pbtxt'' \<mapsto> ''b: 2'']" "''m''"] a b c
    by simp
qed

text \<open>The same on a two-line text: the first line is an entry, the last one is dropped.\<close>

lemma final_line_dropped:
  "parse_dict 2 ''a: 1\<newline>b: 2'' [] = Some (Inr (''b: 2'', [(''a'', Scalar ''1'')]))"
  by code_simp

section \<open>Properties of ModelConfig\<close>

text \<open>\<open>int\<close> of a non-empty string of decimal digits is the number it stands for.\<close>

lemma digit_not_space: "is_digit c \<Longrightarrow> \<not> isspace c"
  by (auto simp: is_digit_def isspace_def)

lemma digit_not_sign: "is_digit c \<Longrightarrow> c \<noteq> CHR ''-'' \<and> c \<noteq> CHR ''+'' \<and> c \<noteq> CHR ''_''"
  by (auto simp: is_digit_def)

lemma parse_digits_all:
  "\<forall>c\<in>set s. is_digit c \<Longrightarrow>
     parse_digits acc s = Some (foldl (\<lambda>acc c. 10 * acc + digit_val c) acc s)"
  by (induction acc s rule: parse_digits.induct) auto

lemma strip_digits:
  assumes "s \<noteq> []" "\<forall>c\<in>set s. is_digit c"
  shows "strip s = s"
proof -
  from assms obtain c cs where s: "s = c # cs" by (cases s) auto
  have l: "\<not> isspace (last s)" using assms by (simp add: digit_not_space)
  have "dropWhile isspace (rev s) = rev s"
    using assms(1) l by (cases "rev s") (auto simp: last_rev [symmetric] simp del: last_rev)
  then have "rstrip s = s" by (simp add: rstrip_def)
  moreover have "lstrip s = s" using assms s by (simp add: lstrip_def digit_not_space)
  ultimately show ?thesis by (simp add: strip_def)
qed

lemma int_of_digits:
  assumes "s \<noteq> []" "\<forall>c\<in>set s. is_digit c"
  shows "int_of_str s = Inr (int (decimal_value s))"
proof -
  from assms obtain c cs where s: "s = c # cs" by (cases s) auto
  have c: "is_digit c" and cs: "\<forall>x\<in>set cs. is_digit x" using assms s by auto
  have "parse_digits (digit_val c) cs = Some (decimal_value s)"
    using parse_digits_all [OF cs, of "digit_val c"] by (simp add: decimal_value_def s)
  moreover have "strip (c # cs) = c # cs" using strip_digits [OF assms] by (simp add: s)
  ultimately show ?thesis
    using c digit_not_sign [OF c]
    by (simp add: int_of_str_def s Let_def)
qed

lemma field_absent:
  "k \<notin> dict_keys (config c) \<Longrightarrow> field c k msg = Inl (TritonModelAnalyzerException msg)"
  by (simp add: field_def)

lemma field_present:
  "map_of (config c) k = Some v \<Longrightarrow> field c k msg = Inr v"
  by (auto simp: field_def dict_keys_def dest: map_of_SomeD intro: rev_image_eqI)

lemma messages_name_field:
  "\<exists>a b. name_missing p = a @ ''name'' @ b"
  "\<exists>a b. platform_missing p = a @ ''platform'' @ b"
  "\<exists>a b. max_batch_size_missing p = a @ ''max_batch_size'' @ b"
  "\<exists>a b. instance_group_missing p = a @ ''instance_group'' @ b"
  "\<exists>a b. dynamic_batching_missing p = a @ ''dynamic_batching'' @ b"
proof -
  show "\<exists>a b. name_missing p = a @ ''name'' @ b"
    unfolding name_missing_def
    by (rule exI [of _ "''Model'' @ [CHR 0x27] @ ''s ''"]) simp
  show "\<exists>a b. platform_missing p = a @ ''platform'' @ b"
    unfolding platform_missing_def
    by (rule exI [of _ "''Model'' @ [CHR 0x27] @ ''s ''"]) simp
  show "\<exists>a b. max_batch_size_missing p = a @ ''max_batch_size'' @ b"
    unfolding max_batch_size_missing_def
    by (rule exI [of _ "''Model'' @ [CHR 0x27] @ ''s ''"]) simp
  show "\<exists>a b. instance_group_missing p = a @ ''instance_group'' @ b"
    unfolding instance_group_missing_def
    by (rule exI [of _ "''ModelConfig  at '' @ p @ '' does not contain an ''"]) simp
  show "\<exists>a b. dynamic_batching_missing p = a @ ''dynamic_batching'' @ b"
    unfolding dynamic_batching_missing_def
    by (rule exI [of _ "''ModelConfig at '' @ p @ '' does not request ''"]) simp
qed

text \<open>
  C8. Each accessor raises the exception whose message names its field when the key is
  absent from the root dict, and returns the stored value when it is present;
  \<open>max_batch_size\<close> returns \<open>int\<close> of the stored value, which for a string of decimal
  digits is the number it stands for.
\<close>

theorem accessor_strictness:
  "(''name'' \<notin> dict_keys (config c) \<longrightarrow>
      name c = Inl (TritonModelAnalyzerException (name_missing (model_path c)))) \<and>
   (''platform'' \<notin> dict_keys (config c) \<longrightarrow>
      platform c = Inl (TritonModelAnalyzerException (platform_missing (model_path c)))) \<and>
   (''max_batch_size'' \<notin> dict_keys (config c) \<longrightarrow>
      max_batch_size c =
        Inl (TritonModelAnalyzerException (max_batch_size_missing (model_path c)))) \<and>
   (''instance_group'' \<notin> dict_keys (config c) \<longrightarrow>
      instance_group c =
        Inl (TritonModelAnalyzerException (instance_group_missing (model_path c)))) \<and>
   (''dynamic_batching'' \<notin> dict_keys (config c) \<longrightarrow>
      dynamic_batching c =
        Inl (TritonModelAnalyzerException (dynamic_batching_missing (model_path c)))) \<and>
   (map_of (config c) ''name'' = Some v1 \<longrightarrow> name c = Inr v1) \<and>
   (map_of (config c) ''platform'' = Some v2 \<longrightarrow> platform c = Inr v2) \<and>
   (map_of (config c) ''max_batch_size'' = Some v3 \<longrightarrow> max_batch_size c = py_int v3) \<and>
   (map_of (config c) ''max_batch_size'' = Some (Scalar s) \<and> s \<noteq> [] \<and> (\<forall>d\<in>set s. is_digit d) \<longrightarrow>
      max_batch_size c = Inr (int (decimal_value s))) \<and>
   (map_of (config c) ''instance_group'' = Some v4 \<longrightarrow> instance_group c = Inr v4) \<and>
   (map_of (config c) ''dynamic_batching'' = Some v5 \<longrightarrow> dynamic_batching c = Inr v5) \<and>
   (\<exists>a b. name_missing (model_path c) = a @ ''name'' @ b) \<and>
   (\<exists>a b. platform_missing (model_path c) = a @ ''platform'' @ b) \<and>
   (\<exists>a b. max_batch_size_missing (model_path c) = a @ ''max_batch_size'' @ b) \<and>
   (\<exists>a b. instance_group_missing (model_path c) = a @ ''instance_group'' @ b) \<and>
   (\<exists>a b. dynamic_batching_missing (model_path c) = a @ ''dynamic_batching'' @ b)"
  unfolding name_def platform_def max_batch_size_def instance_group_def dynamic_batching_def
  by (intro conjI impI messages_name_field)
     (simp_all add: field_absent field_present int_of_digits)

text \<open>Witness for C8: a config with no key, and one with all five.\<close>

theorem accessor_strictness_witness:
  "''name'' \<notin> dict_keys (config bare_config) \<and>
   ''platform'' \<notin> dict_keys (config bare_config) \<and>
   ''max_batch_size'' \<notin> dict_keys (config bare_config) \<and>
   ''instance_group'' \<notin> dict_keys (config bare_config) \<and>
   ''dynamic_batching'' \<notin> dict_keys (config bare_config) \<and>
   name bare_config = Inl (TritonModelAnalyzerException (name_missing ''models/m1'')) \<and>
   platform bare_config = Inl (TritonModelAnalyzerException (platform_missing ''models/m1'')) \<and>
   max_batch_size bare_config =
     Inl (TritonModelAnalyzerException (max_batch_size_missing ''models/m1'')) \<and>
   instance_group bare_config =
     Inl (TritonModelAnalyzerException (instance_group_missing ''models/m1'')) \<and>
   dynamic_batching bare_config =
     Inl (TritonModelAnalyzerException (dynamic_batching_missing ''models/m1'')) \<and>
   map_of (config full_config) ''name'' = Some (Scalar ''m1'') \<and>
   map_of (config full_config) ''platform'' = Some (Scalar ''tensorrt'') \<and>
   map_of (config full_config) ''max_batch_size'' = Some (Scalar ''8'') \<and>
   map_of (config full_config) ''instance_group'' = Some (List [Message [(''count'', Scalar ''2'')]]) \<and>
   map_of (config full_config) ''dynamic_batching'' = Some (Message []) \<and>
   name full_config = Inr (Scalar ''m1'') \<and>
   platform full_config = Inr (Scalar ''tensorrt'') \<and>
   ''8'' \<noteq> [] \<and> is_digit CHR ''8'' \<and> int (decimal_value ''8'') = 8 \<and>
   max_batch_size full_config = Inr 8 \<and>
   instance_group full_config = Inr (List [Message [(''count'', Scalar ''2'')]]) \<and>
   dynamic_batching full_config = Inr (Message [])"
proof -
  have absent: "''name'' \<notin> dict_keys (config bare_config)"
    "''platform'' \<notin> dict_keys (config bare_config)"
    "''max_batch_size'' \<notin> dict_keys (config bare_config)"
    "''instance_group'' \<notin> dict_keys (config bare_config)"
    "''dynamic_batching'' \<notin> dict_keys (config bare_config)"
    by (simp_all add: bare_config_def dict_keys_def)
  have present: "map_of (config full_config) ''name'' = Some (Scalar ''m1'')"
    "map_of (config full_config) ''platform'' = Some (Scalar ''tensorrt'')"
    "map_of (config full_config) ''max_batch_size'' = Some (Scalar ''8'')"
    "map_of (config full_config) ''instance_group'' = Some (List [Message [(''count'', Scalar ''2'')]])"
    "map_of (config full_config) ''dynamic_batching'' = Some (Message [])"
    by (simp_all add: full_config_def)
  have i: "py_int (Scalar ''8'') = Inr 8" by code_simp
  have d: "is_digit CHR ''8''" "int (decimal_value ''8'') = 8"
    by (simp_all add: is_digit_def decimal_value_def digit_val_def)
  have p: "model_path bare_config = ''models/m1''" by (simp add: bare_config_def)
  note A = accessor_strictness [of bare_config]
  note B = accessor_strictness [of full_config "Scalar ''m1''" "Scalar ''tensorrt''" "Scalar ''8''"
        "''8''" "List [Message [(''count'', Scalar ''2'')]]" "Message []"]
  show ?thesis
    using A B absent present i d p by simp
qed

lemma dict_set_other: "k \<noteq> k' \<Longrightarrow> map_of (dict_set d k' v) k = map_of d k"
  by (simp add: dict_set_def update_conv')

lemma dict_set_same: "map_of (dict_set d k v) k = Some v"
  by (simp add: dict_set_def update_conv')

lemma dict_keys_set: "dict_keys (dict_set d k v) = insert k (dict_keys d)"
  by (simp add: dict_set_def dict_keys_def update_conv' flip: dom_map_of_conv_image_fst)

text \<open>
  C9. After a setter the matching accessor returns the given value, whatever the key held
  before, every other key of the root dict maps to what it did, and the key set has
  gained at most the key set.
\<close>

theorem setters_overwrite:
  "instance_group (set_instance_group c v) = Inr v \<and>
   dynamic_batching (set_dynamic_batching c v) = Inr v \<and>
   (k \<noteq> ''instance_group'' \<longrightarrow>
      map_of (config (set_instance_group c v)) k = map_of (config c) k) \<and>
   (k \<noteq> ''dynamic_batching'' \<longrightarrow>
      map_of (config (set_dynamic_batching c v)) k = map_of (config c) k) \<and>
   dict_keys (config (set_instance_group c v)) = insert ''instance_group'' (dict_keys (config c)) \<and>
   dict_keys (config (set_dynamic_batching c v)) =
     insert ''dynamic_batching'' (dict_keys (config c)) \<and>
   model_path (set_instance_group c v) = model_path c \<and>
   model_path (set_dynamic_batching c v) = model_path c"
  by (simp add: instance_group_def dynamic_batching_def set_instance_group_def
      set_dynamic_batching_def field_present dict_set_same dict_set_other dict_keys_set)

text \<open>Witness for C9.\<close>

theorem setters_overwrite_witness:
  "instance_group (set_instance_group full_config (Message [(''count'', Scalar ''4'')])) =
     Inr (Message [(''count'', Scalar ''4'')]) \<and>
   dynamic_batching (set_dynamic_batching full_config (Message [(''count'', Scalar ''4'')])) =
     Inr (Message [(''count'', Scalar ''4'')]) \<and>
   ''name'' \<noteq> ''instance_group'' \<and> ''name'' \<noteq> ''dynamic_batching'' \<and>
   map_of (config (set_instance_group full_config (Message [(''count'', Scalar ''4'')]))) ''name'' =
     Some (Scalar ''m1'') \<and>
   map_of (config (set_dynamic_batching full_config (Message [(''count'', Scalar ''4'')]))) ''name'' =
     Some (Scalar ''m1'')"
proof -
  have n: "map_of (config full_config) ''name'' = Some (Scalar ''m1'')"
    by (simp add: full_config_def)
  show ?thesis
    using setters_overwrite [of full_config "Message [(''count'', Scalar ''4'')]" "''name''"] n
    by simp
qed

section \<open>Properties of the comparator and of the ranking\<close>

text \<open>The priority loop never reads the averages of the accelerator rows, and a kind
  outside the accelerator-scoped index is unknown to it wherever else it is listed.\<close>

lemma compare_priorities_ignores_gpu_rows:
  "compare_priorities c g1 n1 g2 n2 ps = compare_priorities c g1' n1 g2' n2 ps"
  by (induction ps) (auto simp: Let_def split: sum.splits)

lemma not_in_gpu_index_is_unknown:
  "gpu_type_to_idx c p = None \<Longrightarrow>
     compare_priorities c g1 n1 g2 n2 (p # ps) = Inl (CategoryUnknown p)"
  by simp

text \<open>Both comparisons with the threshold are strict: a difference equal to a
  non-negative threshold does not decide.\<close>

lemma boundary_not_decisive:
  assumes "gpu_type_to_idx c p = Some i" "i < length n1" "i < length n2"
    and "0 \<le> comparison_threshold_factor c * (n1 ! i)"
    and "n1 ! i - n2 ! i = comparison_threshold_factor c * (n1 ! i)"
  shows "compare_priorities c g1 n1 g2 n2 [p] = Inr 0"
  using assms by (simp add: avg_at_def Let_def)

lemma dom_fold_idx:
  "dom (fold (\<lambda>i m. m(ts ! i \<mapsto> i)) is m0) = dom m0 \<union> (\<lambda>i. ts ! i) ` set is"
  by (induction "is" arbitrary: m0) auto

lemma dom_type_to_idx: "dom (type_to_idx ts) = set ts"
proof -
  have "(\<lambda>i. ts ! i) ` set [0..<length ts] = set ts"
    by (simp add: nth_image)
  then show ?thesis
    unfolding type_to_idx_def dom_fold_idx by simp
qed

lemma host_only_priority_raises:
  assumes "k \<notin> set gpu_types"
    and "average_measurements a = Inr (ga, na)"
    and "average_measurements b = Inr (gb, nb)"
  shows "compare (ResultComparator gpu_types non_gpu_types (k # ps) t w) a b = Inl (CategoryUnknown k)"
proof -
  have "k \<notin> dom (type_to_idx gpu_types)" using assms(1) by (simp add: dom_type_to_idx)
  then have "gpu_type_to_idx (ResultComparator gpu_types non_gpu_types (k # ps) t w) k = None"
    by (auto simp: ResultComparator_def)
  then show ?thesis
    using assms(2,3) by (simp add: compare_def ResultComparator_def)
qed

text \<open>Averaging raises as soon as the first accelerator snapshot holds a GPU: the rows are
  \<open>dict.values()\<close> views, which \<open>row_list[j][i]\<close> cannot index.\<close>

lemma average_list_views:
  assumes "vs \<noteq> []"
  shows "average_list (DictValues vs # rest) = (Inl NotSubscriptable :: 'k result_error + real list)"
proof -
  let ?rows = "DictValues vs # rest"
  have "comprehension (\<lambda>j. py_getitem (?rows ! j) 0) [0..<length ?rows]
      = (Inl NotSubscriptable :: 'k result_error + real list)"
    by (subst upt_rec) simp
  moreover have "[0..<py_len (?rows ! 0)] = 0 # [Suc 0..<length vs]"
    using assms by (subst upt_rec) simp
  ultimately show ?thesis
    unfolding average_list_def Let_def by (simp del: upt_Suc)
qed

lemma accelerator_snapshots_raise:
  assumes "gpu_specific_measurements r = m # ms" "m \<noteq> []"
  shows "average_measurements r = Inl NotSubscriptable"
  using assms
  by (simp add: average_measurements_def get_measurements_def average_list_views)

text \<open>A heap of two results: whichever is pushed first, the one that is \<open><\<close> the other
  is at the root, and \<open>heappop\<close> returns it.\<close>

lemma heap_of_two_pops_lesser:
  assumes "lt a b = Inr False" "lt b a = Inr True"
  shows "heappush lt [a] b = Inr [b, a] \<and> heappush lt [b] a = Inr [b, a] \<and>
         heappop lt [b, a] = Inr (b, [a])"
proof -
  have 1: "heappush lt [a] b = Inr [b, a]"
    using assms by (simp add: heappush_def siftdown_def siftdown_loop.simps)
  have 2: "heappush lt [b] a = Inr [b, a]"
    using assms by (simp add: heappush_def siftdown_def siftdown_loop.simps)
  have 3: "heappop lt [b, a] = Inr (b, [a])"
    by (simp add: heappop_def siftup_def siftup_loop.simps siftdown_def siftdown_loop.simps)
  from 1 2 3 show ?thesis by simp
qed

lemma average_list_empty: "average_list [] = Inr []"
  by (simp add: average_list_def)

lemma average_measurements_empty:
  "get_measurements a = ([], []) \<Longrightarrow> average_measurements a = Inr ([], [])"
  by (simp add: average_measurements_def average_list_empty)

text \<open>
  C1. For a priority kind of the accelerator-scoped index, on two results whose accelerator
  rows are 20 and 10 and whose host rows are both 5: \<open>compare\<close> raises while it averages
  the accelerator snapshots (a \<open>dict.values()\<close> view has no \<open>row[i]\<close>); and the priority
  loop, given the averages themselves, reads the host-scoped row and returns 0, not +1.
\<close>

theorem accelerator_priority_reads_host_rows:
  "compare gpu_comparator (gpu_result gpu_comparator 20 5) (gpu_result gpu_comparator 10 5)
     = Inl NotSubscriptable \<and>
   compare_priorities gpu_comparator [20] [5] [10] [5] (metric_priorities gpu_comparator) = Inr 0"
  by code_simp

text \<open>
  C2. A priority kind listed only in the host-scoped list: \<open>compare\<close> raises the
  "Category unknown" exception for it.
\<close>

theorem host_only_priority_is_unknown:
  "compare host_comparator (host_result host_comparator 10) (host_result host_comparator 20)
     = Inl (CategoryUnknown ''throughput'')"
  by code_simp

text \<open>
  C4. Threshold percent 1, one host-scoped priority kind, averages 100 and 99 (the
  difference is exactly 1 percent of the first): \<open>compare\<close> raises "Category unknown"
  instead of returning 0.
\<close>

theorem threshold_boundary_raises:
  "compare host_comparator (host_result host_comparator 100) (host_result host_comparator 99)
     = Inl (CategoryUnknown ''throughput'')"
  by code_simp

text \<open>
  C5. Counterexample: a result with no snapshot averages to two empty rows, and
  \<open>compare\<close> on it raises the index error of \<open>avg[metric_idx]\<close>.
\<close>

theorem empty_result_counterexample:
  "average_measurements (RunResult one_config gpu_comparator) = Inr ([], []) \<and>
   compare gpu_comparator (RunResult one_config gpu_comparator) (RunResult one_config gpu_comparator)
     = Inl IndexError"
  by code_simp

text \<open>
  C3. Three results with host averages 10, 20, 15, submitted in that order and
  compiled: the rows of the inference table come out as 10, 15, 20, the worst first.
\<close>

theorem compile_emits_worst_first:
  "inference_rows (sweep (ready_manager both_comparator)
      [(one_config, [WithoutGpuIds [10], WithGpuIds []]),
       (one_config, [WithoutGpuIds [20], WithGpuIds []]),
       (one_config, [WithoutGpuIds [15], WithGpuIds []])]) =
    Inr [[Str ''m1'', Str ''1'', Str ''1'', Num 10],
         [Str ''m1'', Str ''1'', Str ''1'', Num 15],
         [Str ''m1'', Str ''1'', Str ''1'', Num 20]]"
  by code_simp

text \<open>
  C5, as amended. A result with no snapshot averages to an empty row for both kinds of
  snapshot, without error. With it as first argument (and a second argument whose
  averaging succeeds) \<open>compare\<close> returns 0 when the priority list is empty, and raises
  the index error when the first priority kind is in the accelerator-scoped index.
\<close>

theorem empty_snapshots:
  "get_measurements a = ([], []) \<longrightarrow>
     average_measurements a = Inr ([], []) \<and>
     (average_measurements b = Inr (g, n) \<longrightarrow>
        (metric_priorities c = [] \<longrightarrow> compare c a b = Inr 0) \<and>
        (metric_priorities c = p # ps \<and> gpu_type_to_idx c p \<noteq> None \<longrightarrow>
           compare c a b = Inl IndexError))"
  by (auto simp: average_measurements_empty compare_def avg_at_def)

text \<open>Witness for C5 (amended).\<close>

theorem empty_snapshots_witness:
  "get_measurements (RunResult one_config gpu_comparator) = ([], []) \<and>
   average_measurements (RunResult one_config gpu_comparator) = Inr ([], []) \<and>
   average_measurements (host_result gpu_comparator 5) = Inr ([], [5]) \<and>
   metric_priorities (ResultComparator [''gpu_utilization''] [''throughput''] [] 1 None) = [] \<and>
   compare (ResultComparator [''gpu_utilization''] [''throughput''] [] 1 None)
     (RunResult one_config gpu_comparator) (host_result gpu_comparator 5) = Inr 0 \<and>
   metric_priorities gpu_comparator = [''gpu_utilization''] \<and>
   gpu_type_to_idx gpu_comparator ''gpu_utilization'' \<noteq> None \<and>
   compare gpu_comparator (RunResult one_config gpu_comparator) (host_result gpu_comparator 5)
     = Inl IndexError"
proof -
  have m: "get_measurements (RunResult one_config gpu_comparator) = ([], [])"
    by (simp add: get_measurements_def RunResult_def)
  have b: "average_measurements (host_result gpu_comparator 5) = Inr ([], [5])"
    by code_simp
  have p0: "metric_priorities (ResultComparator [''gpu_utilization''] [''throughput''] [] 1 None) = []"
    by (simp add: ResultComparator_def)
  have p1: "metric_priorities gpu_comparator = [''gpu_utilization'']"
    by (simp add: gpu_comparator_def ResultComparator_def)
  have i: "gpu_type_to_idx gpu_comparator ''gpu_utilization'' \<noteq> None"
    by (simp add: gpu_comparator_def ResultComparator_def type_to_idx_def)
  note A = empty_snapshots [of "RunResult one_config gpu_comparator" "host_result gpu_comparator 5"
        "[]" "[5]" "ResultComparator [''gpu_utilization''] [''throughput''] [] 1 None"]
  note B = empty_snapshots [of "RunResult one_config gpu_comparator" "host_result gpu_comparator 5"
        "[]" "[5]" gpu_comparator "''gpu_utilization''" "[]"]
  show ?thesis
    using A B m b p0 p1 i by simp
qed

end
